theory Spec2Isabelle
  imports Main
begin

section \<open>Strings\<close>

text \<open>
  JavaScript strings are modelled as \<^typ>\<open>string\<close>. Case folding and white space are
  those of the ASCII range; every other character is left alone by \<open>toLowerCase\<close> and
  is not white space for \<open>trim\<close>.
\<close>

definition toLowerChar :: "char \<Rightarrow> char" where
  "toLowerChar c =
     (case map_of (zip ''ABCDEFGHIJKLMNOPQRSTUVWXYZ'' ''abcdefghijklmnopqrstuvwxyz'') c of
        Some d \<Rightarrow> d
      | None \<Rightarrow> c)"

definition toLowerCase :: "string \<Rightarrow> string" where
  "toLowerCase s = map toLowerChar s"

definition isWhiteSpace :: "char \<Rightarrow> bool" where
  "isWhiteSpace c \<longleftrightarrow> c \<in> set [CHR 0x09, CHR 0x0A, CHR 0x0B, CHR 0x0C, CHR 0x0D, CHR 0x20]"

definition trim :: "string \<Rightarrow> string" where
  "trim s = rev (dropWhile isWhiteSpace (rev (dropWhile isWhiteSpace s)))"

text \<open>
  \<open>el?.value.trim() ?? ''\<close>: the value of a form control, \<open>None\<close> when the selector finds
  no element.
\<close>

definition field_trim :: "string option \<Rightarrow> string" where
  "field_trim v = (case v of None \<Rightarrow> [] | Some s \<Rightarrow> trim s)"

text \<open>\<open>s || undefined\<close>: the empty string is falsy.\<close>

definition or_undefined :: "string \<Rightarrow> string option" where
  "or_undefined s = (if s = [] then None else Some s)"

section \<open>The session store\<close>

type_synonym storage = "string \<rightharpoonup> string"

definition getItem :: "storage \<Rightarrow> string \<Rightarrow> string option" where
  "getItem st k = st k"

definition setItem :: "storage \<Rightarrow> string \<Rightarrow> string \<Rightarrow> storage" where
  "setItem st k v = st(k \<mapsto> v)"

definition removeItem :: "storage \<Rightarrow> string \<Rightarrow> storage" where
  "removeItem st k = st(k := None)"

definition STORAGE_KEY :: string where
  "STORAGE_KEY = ''wedding_auth''"

definition LAST_NAME_KEY :: string where
  "LAST_NAME_KEY = ''wedding_auth_last_name''"

section \<open>The password-only gate\<close>

text \<open>
  \<open>CORRECT_PASSWORD\<close> is read from the build environment; it is a parameter here, \<open>None\<close>
  when the variable is not set (\<open>undefined\<close>, which no string equals).
\<close>

definition isAuthenticated :: "storage \<Rightarrow> bool" where
  "isAuthenticated st \<longleftrightarrow> getItem st STORAGE_KEY = Some ''true''"

definition attemptLogin :: "string option \<Rightarrow> string \<Rightarrow> storage \<Rightarrow> bool \<times> storage" where
  "attemptLogin CORRECT_PASSWORD password st =
     (if Some password = CORRECT_PASSWORD then (True, setItem st STORAGE_KEY ''true'')
      else (False, st))"

definition logout :: "storage \<Rightarrow> storage" where
  "logout st = removeItem st STORAGE_KEY"

section \<open>The remote store\<close>

subsection \<open>Pattern matching of the \<open>ilike\<close> filter\<close>

text \<open>
  The \<open>ilike\<close> filter hands its argument to the store as an SQL \<open>ILIKE\<close> pattern: \<open>%\<close>
  stands for any run of characters, \<open>_\<close> for any one character, and a backslash takes the
  next pattern character literally. A pattern that ends in a lone backslash is an error
  once the match reaches it (\<open>None\<close>). The request layer reads \<open>*\<close> as \<open>%\<close>, and both
  sides are folded to lower case.
\<close>

fun like_match :: "string \<Rightarrow> string \<Rightarrow> bool option" where
  "like_match [] t = Some (t = [])"
| "like_match (c # p) t =
     (if c = CHR ''%'' then
        (if p = [] then Some True
         else (case like_match p t of
                 None \<Rightarrow> None
               | Some True \<Rightarrow> Some True
               | Some False \<Rightarrow>
                   (case t of [] \<Rightarrow> Some False | x # t' \<Rightarrow> like_match (c # p) t')))
      else if c = CHR ''_'' then
        (case t of [] \<Rightarrow> Some False | x # t' \<Rightarrow> like_match p t')
      else if c = CHR 0x5C then
        (case t of
           [] \<Rightarrow> Some False
         | x # t' \<Rightarrow>
             (case p of
                [] \<Rightarrow> None
              | d # p' \<Rightarrow> if x = d then like_match p' t' else Some False))
      else
        (case t of [] \<Rightarrow> Some False | x # t' \<Rightarrow> if x = c then like_match p t' else Some False))"

definition star :: "char \<Rightarrow> char" where
  "star c = (if c = CHR ''*'' then CHR ''%'' else c)"

definition ilike :: "string \<Rightarrow> string \<Rightarrow> bool option" where
  "ilike pattern s = like_match (toLowerCase (map star pattern)) (toLowerCase s)"

definition metachar :: "char \<Rightarrow> bool" where
  "metachar c \<longleftrightarrow> c \<in> set [CHR ''%'', CHR ''_'', CHR ''*'', CHR 0x5C]"

subsection \<open>Rows, requests and responses\<close>

text \<open>
  The row types of \<open>supabase.ts\<close>. \<open>id\<close> and \<open>created_at\<close> are assigned by the store and
  absent from a row the client sends; the store's assignment is not modelled.
  \<open>Rsvp\<close> is the row of the name variant, \<open>Rsvp_email\<close> the row of the email variant.
\<close>

record Invitee =
  inv_id :: "string option"
  inv_created_at :: "string option"
  last_name :: string
  has_plus_one :: bool
  plus_one_name :: "string option"

record Rsvp =
  rsvp_id :: "string option"
  rsvp_created_at :: "string option"
  guest_name :: string
  attending :: bool
  rsvp_last_name :: string
  plus_one_attending :: "bool option"
  dietary_restrictions :: "string option"
  message :: "string option"

text \<open>
  A JavaScript number as \<open>parseInt\<close> produces it: \<open>NaN\<close> or an integer (the rounding of
  integers beyond 53 bits is not modelled, and \<open>-0\<close> is \<open>Num 0\<close>).
\<close>

datatype number = NaN | Num int

record Rsvp_email =
  e_id :: "string option"
  e_created_at :: "string option"
  e_guest_name :: string
  email :: string
  phone :: "string option"
  e_attending :: bool
  number_of_guests :: number
  e_dietary_restrictions :: "string option"
  e_message :: "string option"

text \<open>
  The store holds the two tables. Every request the client issues is appended to
  \<open>requests\<close>. \<open>faults\<close> scripts the failures the store signals (transport failure, policy
  rejection, server fault): each request consumes the head, \<open>Some msg\<close> makes the request
  fail with that message and without effect; an empty script means no failure.
\<close>

datatype 'r request =
    Select_rsvps_ilike_guest_name string
  | Select_rsvps_eq_email string
  | Select_invitees_ilike_last_name string
  | Insert_rsvps 'r

record 'r remote =
  rsvps :: "'r list"
  invitees :: "Invitee list"
  requests :: "'r request list"
  faults :: "string option list"

definition next_fault :: "'r remote \<Rightarrow> string option" where
  "next_fault r = (case faults r of [] \<Rightarrow> None | f # fs \<Rightarrow> f)"

definition issue :: "'r request \<Rightarrow> 'r remote \<Rightarrow> string option \<times> 'r remote" where
  "issue q r = (next_fault r, r\<lparr>requests := requests r @ [q], faults := drop 1 (faults r)\<rparr>)"

text \<open>\<open>.ilike(col, pattern).limit(1)\<close>: the first row that matches, in the store's order.\<close>

fun ilike_limit1 :: "('a \<Rightarrow> string) \<Rightarrow> string \<Rightarrow> 'a list \<Rightarrow> string + 'a list" where
  "ilike_limit1 col pattern [] = Inr []"
| "ilike_limit1 col pattern (x # xs) =
     (case ilike pattern (col x) of
        None \<Rightarrow> Inl ''LIKE pattern must not end with escape character''
      | Some True \<Rightarrow> Inr [x]
      | Some False \<Rightarrow> ilike_limit1 col pattern xs)"

text \<open>\<open>.eq(col, v).limit(1)\<close>.\<close>

definition eq_limit1 :: "('a \<Rightarrow> string) \<Rightarrow> string \<Rightarrow> 'a list \<Rightarrow> 'a list" where
  "eq_limit1 col v xs = take 1 (filter (\<lambda>x. col x = v) xs)"

section \<open>The name-verified gate\<close>

definition isAuthenticated_named :: "storage \<Rightarrow> bool" where
  "isAuthenticated_named st \<longleftrightarrow>
     getItem st STORAGE_KEY = Some ''true'' \<and> getItem st LAST_NAME_KEY \<noteq> None"

definition logout_named :: "storage \<Rightarrow> storage" where
  "logout_named st = removeItem (removeItem st STORAGE_KEY) LAST_NAME_KEY"

text \<open>
  The overlay of \<open>showPasswordGate\<close>: the two inputs, the error line, the submit button,
  the \<open>gate-shake\<close> class of each input and the \<open>gate-exit\<close> class of the overlay, whose
  animation end resolves the promise.
\<close>

record gate_page =
  last_name_value :: string
  password_value :: string
  gate_error :: string
  submit_disabled :: bool
  submit_text :: string
  password_shake :: bool
  last_name_shake :: bool
  gate_exit :: bool
  gate_console :: "string list"

definition gate_catch :: "string \<Rightarrow> gate_page \<Rightarrow> gate_page" where
  "gate_catch err pg =
     pg\<lparr>gate_error := ''Something went wrong. Please try again.'',
        gate_console := gate_console pg @ [err],
        submit_disabled := False,
        submit_text := ''Enter''\<rparr>"

text \<open>The submit listener of the form.\<close>

definition showPasswordGate_submit ::
  "string option \<Rightarrow> gate_page \<times> storage \<times> 'r remote \<Rightarrow> gate_page \<times> storage \<times> 'r remote" where
  "showPasswordGate_submit CORRECT_PASSWORD s =
     (case s of (pg, st, r) \<Rightarrow>
        let pg1 = pg\<lparr>gate_error := [], submit_disabled := True, submit_text := ''Checking...''\<rparr>;
            password = trim (password_value pg1);
            lastName = trim (last_name_value pg1)
        in if Some password \<noteq> CORRECT_PASSWORD then
             (pg1\<lparr>password_value := [],
                  gate_error := ''Incorrect password. Try again!'',
                  password_shake := True,
                  submit_disabled := False,
                  submit_text := ''Enter''\<rparr>, st, r)
           else
             (case issue (Select_invitees_ilike_last_name lastName) r of
                (Some err, r1) \<Rightarrow> (gate_catch err pg1, st, r1)
              | (None, r1) \<Rightarrow>
                  (case ilike_limit1 last_name lastName (invitees r1) of
                     Inl err \<Rightarrow> (gate_catch err pg1, st, r1)
                   | Inr [] \<Rightarrow>
                       (pg1\<lparr>gate_error := ''Last name not found on guest list. Please check your invitation or contact us.'',
                            last_name_shake := True,
                            submit_disabled := False,
                            submit_text := ''Enter''\<rparr>, st, r1)
                   | Inr (row # rest) \<Rightarrow>
                       (pg1\<lparr>gate_exit := True\<rparr>,
                        setItem (setItem st STORAGE_KEY ''true'') LAST_NAME_KEY (last_name row),
                        r1))))"

text \<open>
  The rows of the Invitee collection that match a last name case-insensitively, in the
  words of the specification of the gate; the submit listener is compared with it below.
\<close>

definition matching_invitees :: "string \<Rightarrow> Invitee list \<Rightarrow> Invitee list" where
  "matching_invitees lastName invs =
     filter (\<lambda>i. toLowerCase (last_name i) = toLowerCase lastName) invs"

text \<open>The overlay as \<open>showPasswordGate\<close> renders it.\<close>

definition showPasswordGate_overlay :: gate_page where
  "showPasswordGate_overlay =
     \<lparr>last_name_value = [], password_value = [], gate_error = [],
      submit_disabled = False, submit_text = ''Enter'',
      password_shake = False, last_name_shake = False,
      gate_exit = False, gate_console = []\<rparr>"

section \<open>The RSVP form\<close>

datatype message_type = Success | Warning | Error

text \<open>
  The page around the form: the form's controls and their defaults (what \<open>form.reset()\<close>
  restores), the submit button, the message element and the \<open>display\<close> style of the
  section shown on demand (plus-one in the name variant, guest count in the email
  variant). The button and the message element are taken to be on the page.
\<close>

record 'f rsvp_page =
  form :: 'f
  form_defaults :: 'f
  btn_disabled :: bool
  btn_text :: string
  rsvp_message :: "(message_type \<times> string) option"
  section_display :: string
  console :: "string list"

definition showFormMessage :: "message_type \<Rightarrow> string \<Rightarrow> 'f rsvp_page \<Rightarrow> 'f rsvp_page" where
  "showFormMessage ty msg pg = pg\<lparr>rsvp_message := Some (ty, msg)\<rparr>"

definition enable_btn :: "'f rsvp_page \<Rightarrow> 'f rsvp_page" where
  "enable_btn pg = pg\<lparr>btn_disabled := False, btn_text := ''Send RSVP''\<rparr>"

text \<open>The \<open>catch\<close> block followed by the \<open>finally\<close> block.\<close>

definition rsvp_catch :: "string \<Rightarrow> 'f rsvp_page \<Rightarrow> 'f rsvp_page" where
  "rsvp_catch err pg =
     enable_btn
       ((showFormMessage Error ''Something went wrong. Please try again or contact us directly.'' pg)
          \<lparr>console := console pg @ [err]\<rparr>)"

definition submitRsvp :: "'r \<Rightarrow> 'r remote \<Rightarrow> (string + unit) \<times> 'r remote" where
  "submitRsvp rsvp r =
     (case issue (Insert_rsvps rsvp) r of
        (Some err, r1) \<Rightarrow> (Inl err, r1)
      | (None, r1) \<Rightarrow> (Inr (), r1\<lparr>rsvps := rsvps r1 @ [rsvp]\<rparr>))"

subsection \<open>Name variant\<close>

definition checkDuplicate :: "string \<Rightarrow> Rsvp remote \<Rightarrow> (string + bool) \<times> Rsvp remote" where
  "checkDuplicate name r =
     (case issue (Select_rsvps_ilike_guest_name name) r of
        (Some err, r1) \<Rightarrow> (Inl err, r1)
      | (None, r1) \<Rightarrow>
          (case ilike_limit1 guest_name name (rsvps r1) of
             Inl err \<Rightarrow> (Inl err, r1)
           | Inr data \<Rightarrow> (Inr (length data > 0), r1)))"

record rsvp_form =
  attending_checked :: "string option"
  guest_name_value :: "string option"
  dietary_restrictions_value :: "string option"
  rsvp_message_input_value :: "string option"
  plus_one_attending_checked :: "string option"

text \<open>
  The submit listener of \<open>initRsvpForm\<close>; \<open>authLastName\<close> is the matched last name read
  from the session store when the form was initialised.
\<close>

definition initRsvpForm_submit ::
  "string option \<Rightarrow> rsvp_form rsvp_page \<times> Rsvp remote \<Rightarrow> rsvp_form rsvp_page \<times> Rsvp remote" where
  "initRsvpForm_submit authLastName s =
     (case s of (pg, r) \<Rightarrow>
        let pg1 = pg\<lparr>btn_disabled := True, btn_text := ''Sending...''\<rparr>;
            attending = (attending_checked (form pg1) = Some ''true'');
            guestName = field_trim (guest_name_value (form pg1));
            dietaryRestrictions = field_trim (dietary_restrictions_value (form pg1));
            message = field_trim (rsvp_message_input_value (form pg1));
            plusOneVal = plus_one_attending_checked (form pg1);
            plusOneAttending =
              (if plusOneVal = Some ''true'' then Some True
               else if plusOneVal = Some ''false'' then Some False
               else None)
        in if guestName = [] then
             (enable_btn (showFormMessage Error ''Please fill in your name.'' pg1), r)
           else
             (case checkDuplicate guestName r of
                (Inl err, r1) \<Rightarrow> (rsvp_catch err pg1, r1)
              | (Inr True, r1) \<Rightarrow>
                  (enable_btn
                     (showFormMessage Warning
                        (''Looks like you're already on the list, '' @ guestName @
                         ''! If you need to make changes, reach out to us directly.'') pg1), r1)
              | (Inr False, r1) \<Rightarrow>
                  (case submitRsvp
                          \<lparr>rsvp_id = None, rsvp_created_at = None,
                           guest_name = guestName,
                           attending = attending,
                           rsvp_last_name = (case authLastName of None \<Rightarrow> [] | Some n \<Rightarrow> n),
                           plus_one_attending = plusOneAttending,
                           dietary_restrictions = or_undefined dietaryRestrictions,
                           message = or_undefined message\<rparr> r1 of
                     (Inl err, r2) \<Rightarrow> (rsvp_catch err pg1, r2)
                   | (Inr u, r2) \<Rightarrow>
                       (enable_btn
                          (showFormMessage Success
                             (if attending
                              then ''You're on the list, '' @ guestName @ ''! Can't wait to see you!''
                              else ''We'll miss you, '' @ guestName @ ''. Thank you for letting us know.'')
                             (pg1\<lparr>form := form_defaults pg1, section_display := ''none''\<rparr>)), r2))))"

subsection \<open>Email variant\<close>

text \<open>
  \<open>parseInt(string)\<close> with no radix: leading white space is skipped, a sign is read, a
  prefix \<open>0x\<close> or \<open>0X\<close> selects radix 16, and the longest prefix of digits is the value;
  with no digit the result is \<open>NaN\<close>.
\<close>

definition digitValue :: "char \<Rightarrow> nat option" where
  "digitValue c =
     map_of (zip ''0123456789abcdef'' [0, 1, 2, 3, 4, 5, 6, 7, 8, 9, 10, 11, 12, 13, 14, 15] @
             zip ''ABCDEF'' [10, 11, 12, 13, 14, 15]) c"

definition radixDigit :: "nat \<Rightarrow> char \<Rightarrow> bool" where
  "radixDigit R c = (case digitValue c of None \<Rightarrow> False | Some d \<Rightarrow> d < R)"

definition mathInt :: "nat \<Rightarrow> string \<Rightarrow> nat" where
  "mathInt R Z = foldl (\<lambda>acc c. acc * R + (case digitValue c of None \<Rightarrow> 0 | Some d \<Rightarrow> d)) 0 Z"

definition parseInt :: "string \<Rightarrow> number" where
  "parseInt string =
     (let S = dropWhile isWhiteSpace string;
          sign = (if take 1 S = ''-'' then - 1 else (1::int));
          S1 = (if take 1 S = ''+'' \<or> take 1 S = ''-'' then drop 1 S else S);
          hex = (take 2 S1 = ''0x'' \<or> take 2 S1 = ''0X'');
          R = (if hex then 16 else 10);
          S2 = (if hex then drop 2 S1 else S1);
          Z = takeWhile (radixDigit R) S2
      in if Z = [] then NaN else Num (sign * int (mathInt R Z)))"

definition checkDuplicate_email ::
  "string \<Rightarrow> Rsvp_email remote \<Rightarrow> (string + bool) \<times> Rsvp_email remote" where
  "checkDuplicate_email em r =
     (case issue (Select_rsvps_eq_email em) r of
        (Some err, r1) \<Rightarrow> (Inl err, r1)
      | (None, r1) \<Rightarrow> (Inr (length (eq_limit1 email em (rsvps r1)) > 0), r1))"

record rsvp_form_email =
  e_attending_checked :: "string option"
  e_guest_name_value :: "string option"
  guest_email_value :: "string option"
  guest_phone_value :: "string option"
  number_of_guests_value :: "string option"
  e_dietary_restrictions_value :: "string option"
  e_rsvp_message_input_value :: "string option"

text \<open>
  The submit listener of the email variant. The first four characters of the message
  for an attending guest are the UTF-8 bytes of the party-popper sign of the source.
\<close>

definition initRsvpForm_submit_email ::
  "rsvp_form_email rsvp_page \<times> Rsvp_email remote \<Rightarrow>
   rsvp_form_email rsvp_page \<times> Rsvp_email remote" where
  "initRsvpForm_submit_email s =
     (case s of (pg, r) \<Rightarrow>
        let pg1 = pg\<lparr>btn_disabled := True, btn_text := ''Sending...''\<rparr>;
            attending = (e_attending_checked (form pg1) = Some ''true'');
            guestName = field_trim (e_guest_name_value (form pg1));
            em = field_trim (guest_email_value (form pg1));
            ph = field_trim (guest_phone_value (form pg1));
            numberOfGuests =
              parseInt (case number_of_guests_value (form pg1) of None \<Rightarrow> ''1'' | Some v \<Rightarrow> v);
            dietaryRestrictions = field_trim (e_dietary_restrictions_value (form pg1));
            message = field_trim (e_rsvp_message_input_value (form pg1))
        in if guestName = [] \<or> em = [] then
             (enable_btn (showFormMessage Error ''Please fill in your name and email.'' pg1), r)
           else
             (case checkDuplicate_email em r of
                (Inl err, r1) \<Rightarrow> (rsvp_catch err pg1, r1)
              | (Inr True, r1) \<Rightarrow>
                  (enable_btn
                     (showFormMessage Success
                        (''You're already on the list, '' @ guestName @
                         ''! If you need to make changes, reach out to us directly.'') pg1), r1)
              | (Inr False, r1) \<Rightarrow>
                  (case submitRsvp
                          \<lparr>e_id = None, e_created_at = None,
                           e_guest_name = guestName,
                           email = em,
                           phone = or_undefined ph,
                           e_attending = attending,
                           number_of_guests = (if attending then numberOfGuests else Num 0),
                           e_dietary_restrictions = or_undefined dietaryRestrictions,
                           e_message = or_undefined message\<rparr> r1 of
                     (Inl err, r2) \<Rightarrow> (rsvp_catch err pg1, r2)
                   | (Inr u, r2) \<Rightarrow>
                       (enable_btn
                          (showFormMessage Success
                             (if attending
                              then [CHR 0xF0, CHR 0x9F, CHR 0x8E, CHR 0x89] @
                                   '' You're on the list, '' @ guestName @ ''! Can't wait to see you!''
                              else ''We'll miss you, '' @ guestName @ ''. Thank you for letting us know.'')
                             (pg1\<lparr>form := form_defaults pg1, section_display := ''none''\<rparr>)), r2))))"

section \<open>The admin dashboard: RSVP counts per invitee\<close>

text \<open>
  The loop of \<open>renderDashboard\<close> that fills the map \<open>rsvpCounts\<close>, and the count that
  \<open>renderInviteesTab\<close> prints in the row of each invitee (the markup around it is left
  out).
\<close>

fun rsvpCounts_loop :: "(string \<rightharpoonup> nat) \<Rightarrow> Rsvp list \<Rightarrow> (string \<rightharpoonup> nat)" where
  "rsvpCounts_loop m [] = m"
| "rsvpCounts_loop m (r # rs) =
     rsvpCounts_loop
       (if rsvp_last_name r \<noteq> [] then
          (let key = toLowerCase (rsvp_last_name r)
           in m(key \<mapsto> (case m key of None \<Rightarrow> 0 | Some n \<Rightarrow> n) + 1))
        else m) rs"

definition rsvdCount :: "(string \<rightharpoonup> nat) \<Rightarrow> Invitee \<Rightarrow> nat" where
  "rsvdCount rsvpCounts invitee =
     (case rsvpCounts (toLowerCase (last_name invitee)) of None \<Rightarrow> 0 | Some n \<Rightarrow> n)"

definition renderInviteesTab :: "Invitee list \<Rightarrow> (string \<rightharpoonup> nat) \<Rightarrow> (Invitee \<times> nat) list" where
  "renderInviteesTab invs rsvpCounts = map (\<lambda>invitee. (invitee, rsvdCount rsvpCounts invitee)) invs"

definition renderDashboard_invitees :: "Rsvp list \<Rightarrow> Invitee list \<Rightarrow> (Invitee \<times> nat) list" where
  "renderDashboard_invitees rs invs = renderInviteesTab invs (rsvpCounts_loop Map.empty rs)"

text \<open>
  The RSVP rows correlated with an invitee, in the words of the specification of the
  dashboard: those whose last name equals the invitee's up to case.
\<close>

definition matching_rsvps :: "Invitee \<Rightarrow> Rsvp list \<Rightarrow> Rsvp list" where
  "matching_rsvps invitee rs =
     filter (\<lambda>r. toLowerCase (rsvp_last_name r) = toLowerCase (last_name invitee)) rs"

section \<open>Properties of the pattern match\<close>

lemma toLowerChar_other:
  "c \<notin> set ''ABCDEFGHIJKLMNOPQRSTUVWXYZ'' \<Longrightarrow> toLowerChar c = c"
  unfolding toLowerChar_def by simp

lemma toLowerChar_upper:
  "c \<in> set ''ABCDEFGHIJKLMNOPQRSTUVWXYZ'' \<Longrightarrow>
   toLowerChar c \<in> set ''abcdefghijklmnopqrstuvwxyz''"
  unfolding toLowerChar_def by auto

lemma toLowerChar_metachar: "metachar (toLowerChar c) \<longleftrightarrow> metachar c"
proof (cases "c \<in> set ''ABCDEFGHIJKLMNOPQRSTUVWXYZ''")
  case True
  from toLowerChar_upper[OF True] have "\<not> metachar (toLowerChar c)"
    unfolding metachar_def by auto
  moreover from True have "\<not> metachar c"
    unfolding metachar_def by auto
  ultimately show ?thesis by simp
next
  case False
  from toLowerChar_other[OF False] show ?thesis by simp
qed

lemma toLowerCase_Nil_iff: "toLowerCase s = [] \<longleftrightarrow> s = []"
  by (simp add: toLowerCase_def)

text \<open>A pattern without wildcard or escape matches exactly itself.\<close>

lemma like_match_plain:
  "\<forall>c\<in>set p. c \<noteq> CHR ''%'' \<and> c \<noteq> CHR ''_'' \<and> c \<noteq> CHR 0x5C \<Longrightarrow>
   like_match p t = Some (p = t)"
proof (induction p arbitrary: t)
  case Nil
  then show ?case by auto
next
  case (Cons c p)
  then show ?case by (cases t) auto
qed

lemma toLowerChar_plain:
  assumes "\<not> metachar c"
  shows "toLowerChar c \<noteq> CHR ''%'' \<and> toLowerChar c \<noteq> CHR ''_'' \<and> toLowerChar c \<noteq> CHR 0x5C"
proof -
  from assms toLowerChar_metachar have "\<not> metachar (toLowerChar c)"
    by blast
  then show ?thesis
    by (simp add: metachar_def)
qed

lemma ilike_plain:
  assumes "\<forall>c\<in>set p. \<not> metachar c"
  shows "ilike p s = Some (toLowerCase p = toLowerCase s)"
proof -
  have 1: "map star p = p"
    using assms by (induction p) (simp_all add: star_def metachar_def)
  have 2: "\<forall>c\<in>set (toLowerCase p). c \<noteq> CHR ''%'' \<and> c \<noteq> CHR ''_'' \<and> c \<noteq> CHR 0x5C"
  proof
    fix c
    assume "c \<in> set (toLowerCase p)"
    then obtain d where d: "d \<in> set p" "c = toLowerChar d"
      by (auto simp: toLowerCase_def)
    from d(1) assms have "\<not> metachar d" by blast
    from toLowerChar_plain[OF this] d(2)
    show "c \<noteq> CHR ''%'' \<and> c \<noteq> CHR ''_'' \<and> c \<noteq> CHR 0x5C" by simp
  qed
  show ?thesis
    unfolding ilike_def 1 using like_match_plain[OF 2] by simp
qed

lemma ilike_percent: "ilike ''%'' s = Some True"
  by (simp add: ilike_def star_def toLowerCase_def toLowerChar_def)

lemma ilike_limit1_plain:
  assumes "\<forall>c\<in>set p. \<not> metachar c"
  shows "ilike_limit1 col p xs =
           Inr (take 1 (filter (\<lambda>x. toLowerCase (col x) = toLowerCase p) xs))"
  by (induction xs) (auto simp: ilike_plain[OF assms])

lemma trim_Nil: "trim [] = []"
  by (simp add: trim_def)

section \<open>Properties of the gate\<close>

lemmas eval_gate = showPasswordGate_submit_def Let_def issue_def next_fault_def trim_def
  isWhiteSpace_def showPasswordGate_overlay_def ilike_def toLowerCase_def toLowerChar_def
  star_def gate_catch_def

lemma gate_wrong_password:
  assumes "Some (trim (password_value pg)) \<noteq> C"
  shows "showPasswordGate_submit C (pg, st, r) =
     (pg\<lparr>gate_error := ''Incorrect password. Try again!'', submit_disabled := False,
         submit_text := ''Enter'', password_value := [], password_shake := True\<rparr>, st, r)"
  using assms by (simp add: showPasswordGate_submit_def Let_def)

lemma gate_lookup:
  assumes "Some (trim (password_value pg)) = C" and "next_fault r = None"
  shows "showPasswordGate_submit C (pg, st, r) =
     (let pg1 = pg\<lparr>gate_error := [], submit_disabled := True, submit_text := ''Checking...''\<rparr>;
          lastName = trim (last_name_value pg);
          r1 = r\<lparr>requests := requests r @ [Select_invitees_ilike_last_name lastName],
                 faults := drop 1 (faults r)\<rparr>
      in case ilike_limit1 last_name lastName (invitees r) of
           Inl err \<Rightarrow> (gate_catch err pg1, st, r1)
         | Inr [] \<Rightarrow>
             (pg1\<lparr>gate_error := ''Last name not found on guest list. Please check your invitation or contact us.'',
                  last_name_shake := True, submit_disabled := False, submit_text := ''Enter''\<rparr>, st, r1)
         | Inr (row # rest) \<Rightarrow>
             (pg1\<lparr>gate_exit := True\<rparr>,
              setItem (setItem st STORAGE_KEY ''true'') LAST_NAME_KEY (last_name row), r1))"
  using assms by (simp add: showPasswordGate_submit_def Let_def issue_def)

text \<open>
  C1, as stated: the gate unlocks iff exactly one invitee row matches the last name.
  With the rows \<open>smith\<close> and \<open>Smith\<close> on the guest list, two rows match \<open>smith\<close> and the
  gate unlocks.
\<close>

theorem C1_two_matching_rows_unlock:
  "\<not> (gate_exit (fst (showPasswordGate_submit (Some ''powder'')
         (showPasswordGate_overlay\<lparr>last_name_value := ''smith'', password_value := ''powder''\<rparr>,
          Map.empty,
          \<lparr>rsvps = [] :: Rsvp list,
           invitees = [\<lparr>inv_id = None, inv_created_at = None, last_name = ''smith'',
                        has_plus_one = False, plus_one_name = None\<rparr>,
                       \<lparr>inv_id = None, inv_created_at = None, last_name = ''Smith'',
                        has_plus_one = True, plus_one_name = None\<rparr>],
           requests = [], faults = []\<rparr>)))
      \<longleftrightarrow>
      length (matching_invitees ''smith''
                [\<lparr>inv_id = None, inv_created_at = None, last_name = ''smith'',
                  has_plus_one = False, plus_one_name = None\<rparr>,
                 \<lparr>inv_id = None, inv_created_at = None, last_name = ''Smith'',
                  has_plus_one = True, plus_one_name = None\<rparr>]) = 1)"
  by (simp add: eval_gate matching_invitees_def)

text \<open>
  C1, amended: with the correct password, a lookup that the store answers and a last
  name (trimmed) free of the pattern characters \<open>%\<close>, \<open>_\<close>, \<open>*\<close> and backslash, the gate
  unlocks iff at least one invitee row has that last name up to case, and the session
  then holds the unlock flag and the last name as stored in the first such row.
\<close>

theorem C1_gate_unlocks_iff_some_row:
  fixes r :: "'r remote"
  assumes pw: "Some (trim (password_value pg)) = CORRECT_PASSWORD"
      and nf: "next_fault r = None"
      and plain: "\<forall>c\<in>set (trim (last_name_value pg)). \<not> metachar c"
      and fresh: "\<not> gate_exit pg"
  shows "(gate_exit (fst (showPasswordGate_submit CORRECT_PASSWORD (pg, st, r))) \<longleftrightarrow>
            matching_invitees (trim (last_name_value pg)) (invitees r) \<noteq> []) \<and>
         (\<forall>row rest. matching_invitees (trim (last_name_value pg)) (invitees r) = row # rest \<longrightarrow>
            fst (snd (showPasswordGate_submit CORRECT_PASSWORD (pg, st, r))) =
              setItem (setItem st STORAGE_KEY ''true'') LAST_NAME_KEY (last_name row))"
proof (cases "matching_invitees (trim (last_name_value pg)) (invitees r)")
  case Nil
  with fresh show ?thesis
    by (simp add: gate_lookup[OF pw nf] ilike_limit1_plain[OF plain] Let_def
        matching_invitees_def)
next
  case (Cons row rest)
  then show ?thesis
    by (simp add: gate_lookup[OF pw nf] ilike_limit1_plain[OF plain] Let_def
        matching_invitees_def)
qed

text \<open>
  The amended C1 at work: \<open>Smith\<close>, typed with blanks around it, unlocks against the
  stored \<open>smith\<close>, the second row of the guest list.
\<close>

theorem C1_gate_unlocks_iff_some_row_witness:
  "gate_exit (fst (showPasswordGate_submit (Some ''powder'')
      (showPasswordGate_overlay\<lparr>last_name_value := '' Smith '', password_value := ''powder''\<rparr>,
       Map.empty,
       \<lparr>rsvps = [] :: Rsvp list,
        invitees = [\<lparr>inv_id = None, inv_created_at = None, last_name = ''jones'',
                     has_plus_one = False, plus_one_name = None\<rparr>,
                    \<lparr>inv_id = None, inv_created_at = None, last_name = ''smith'',
                     has_plus_one = True, plus_one_name = Some ''Sam''\<rparr>],
        requests = [], faults = []\<rparr>))) \<and>
   fst (snd (showPasswordGate_submit (Some ''powder'')
      (showPasswordGate_overlay\<lparr>last_name_value := '' Smith '', password_value := ''powder''\<rparr>,
       Map.empty,
       \<lparr>rsvps = [] :: Rsvp list,
        invitees = [\<lparr>inv_id = None, inv_created_at = None, last_name = ''jones'',
                     has_plus_one = False, plus_one_name = None\<rparr>,
                    \<lparr>inv_id = None, inv_created_at = None, last_name = ''smith'',
                     has_plus_one = True, plus_one_name = Some ''Sam''\<rparr>],
        requests = [], faults = []\<rparr>))) =
     [STORAGE_KEY \<mapsto> ''true'', LAST_NAME_KEY \<mapsto> ''smith'']"
proof -
  let ?pg = "showPasswordGate_overlay\<lparr>last_name_value := '' Smith '', password_value := ''powder''\<rparr>"
  let ?r = "\<lparr>rsvps = [] :: Rsvp list,
        invitees = [\<lparr>inv_id = None, inv_created_at = None, last_name = ''jones'',
                     has_plus_one = False, plus_one_name = None\<rparr>,
                    \<lparr>inv_id = None, inv_created_at = None, last_name = ''smith'',
                     has_plus_one = True, plus_one_name = Some ''Sam''\<rparr>],
        requests = [], faults = []\<rparr>"
  have ln: "trim (last_name_value ?pg) = ''Smith''"
    by (simp add: showPasswordGate_overlay_def trim_def isWhiteSpace_def)
  have h1: "Some (trim (password_value ?pg)) = Some ''powder''"
    by (simp add: showPasswordGate_overlay_def trim_def isWhiteSpace_def)
  have h2: "next_fault ?r = None"
    by (simp add: next_fault_def)
  have h3: "\<forall>c\<in>set (trim (last_name_value ?pg)). \<not> metachar c"
    unfolding ln by (simp add: metachar_def)
  have h4: "\<not> gate_exit ?pg"
    by (simp add: showPasswordGate_overlay_def)
  have m: "matching_invitees (trim (last_name_value ?pg)) (invitees ?r) =
             [\<lparr>inv_id = None, inv_created_at = None, last_name = ''smith'',
               has_plus_one = True, plus_one_name = Some ''Sam''\<rparr>]"
    unfolding ln by (simp add: matching_invitees_def toLowerCase_def toLowerChar_def)
  from C1_gate_unlocks_iff_some_row[OF h1 h2 h3 h4, where st = Map.empty] m
  show ?thesis
    by (simp add: setItem_def)
qed

text \<open>
  C3: an incorrect secret leaves the session store as it was, whatever the last name.
  In the password-only variant \<open>attemptLogin\<close> returns false with the store unchanged; in
  the name-verified variant the submit listener returns before any store access.
\<close>

theorem C3_wrong_secret_keeps_session:
  fixes r :: "'r remote"
  assumes "Some password \<noteq> CORRECT_PASSWORD"
      and "Some (trim (password_value pg)) \<noteq> CORRECT_PASSWORD"
  shows "attemptLogin CORRECT_PASSWORD password st = (False, st) \<and>
         fst (snd (showPasswordGate_submit CORRECT_PASSWORD (pg, st, r))) = st"
  using assms by (simp add: attemptLogin_def gate_wrong_password)

theorem C3_wrong_secret_keeps_session_witness:
  "attemptLogin (Some ''powder'') ''guess'' [STORAGE_KEY \<mapsto> ''true''] =
     (False, [STORAGE_KEY \<mapsto> ''true'']) \<and>
   fst (snd (showPasswordGate_submit (Some ''powder'')
      (showPasswordGate_overlay\<lparr>last_name_value := ''Smith'', password_value := '' guess ''\<rparr>,
       [STORAGE_KEY \<mapsto> ''true''],
       \<lparr>rsvps = [] :: Rsvp list, invitees = [], requests = [], faults = []\<rparr>))) =
     [STORAGE_KEY \<mapsto> ''true'']"
proof -
  have h1: "Some ''guess'' \<noteq> Some ''powder''"
    by simp
  have h2: "Some (trim (password_value
              (showPasswordGate_overlay\<lparr>last_name_value := ''Smith'',
                                         password_value := '' guess ''\<rparr>))) \<noteq> Some ''powder''"
    by (simp add: trim_def isWhiteSpace_def)
  show ?thesis
    by (rule C3_wrong_secret_keeps_session[OF h1 h2])
qed

text \<open>
  C7: \<open>isAuthenticated\<close> is false right after \<open>logout\<close> and true right after a successful
  login, in both variants. In the name-verified variant a successful login is a submit
  that sets the exit class on an overlay that did not have it.
\<close>

theorem C7_authenticated_after_login_not_after_logout:
  fixes r :: "'r remote"
  shows "\<not> isAuthenticated (logout st) \<and>
         (fst (attemptLogin CORRECT_PASSWORD password st) \<longrightarrow>
            isAuthenticated (snd (attemptLogin CORRECT_PASSWORD password st))) \<and>
         \<not> isAuthenticated_named (logout_named st) \<and>
         (\<not> gate_exit pg \<and> gate_exit (fst (showPasswordGate_submit CORRECT_PASSWORD (pg, st, r))) \<longrightarrow>
            isAuthenticated_named (fst (snd (showPasswordGate_submit CORRECT_PASSWORD (pg, st, r)))))"
proof -
  have 1: "\<not> isAuthenticated (logout st)"
    by (simp add: isAuthenticated_def logout_def removeItem_def getItem_def)
  have 2: "fst (attemptLogin CORRECT_PASSWORD password st) \<longrightarrow>
            isAuthenticated (snd (attemptLogin CORRECT_PASSWORD password st))"
    by (simp add: attemptLogin_def isAuthenticated_def setItem_def getItem_def)
  have 3: "\<not> isAuthenticated_named (logout_named st)"
    by (simp add: isAuthenticated_named_def logout_named_def removeItem_def getItem_def)
  have 4: "isAuthenticated_named (fst (snd (showPasswordGate_submit CORRECT_PASSWORD (pg, st, r))))"
    if a: "\<not> gate_exit pg"
      and b: "gate_exit (fst (showPasswordGate_submit CORRECT_PASSWORD (pg, st, r)))"
    using a b
    by (auto simp: showPasswordGate_submit_def Let_def issue_def gate_catch_def
        isAuthenticated_named_def setItem_def getItem_def STORAGE_KEY_def LAST_NAME_KEY_def
        split: if_splits option.splits sum.splits list.splits)
  from 1 2 3 4 show ?thesis by blast
qed

theorem C7_authenticated_after_login_not_after_logout_witness:
  "\<not> isAuthenticated (logout [STORAGE_KEY \<mapsto> ''true'']) \<and>
   fst (attemptLogin (Some ''powder'') ''powder'' Map.empty) \<and>
   isAuthenticated (snd (attemptLogin (Some ''powder'') ''powder'' Map.empty)) \<and>
   \<not> isAuthenticated_named
        (logout_named [STORAGE_KEY \<mapsto> ''true'', LAST_NAME_KEY \<mapsto> ''smith'']) \<and>
   \<not> gate_exit (showPasswordGate_overlay\<lparr>last_name_value := ''Smith'', password_value := ''powder''\<rparr>) \<and>
   gate_exit (fst (showPasswordGate_submit (Some ''powder'')
      (showPasswordGate_overlay\<lparr>last_name_value := ''Smith'', password_value := ''powder''\<rparr>,
       Map.empty,
       \<lparr>rsvps = [] :: Rsvp list,
        invitees = [\<lparr>inv_id = None, inv_created_at = None, last_name = ''smith'',
                     has_plus_one = False, plus_one_name = None\<rparr>],
        requests = [], faults = []\<rparr>))) \<and>
   isAuthenticated_named (fst (snd (showPasswordGate_submit (Some ''powder'')
      (showPasswordGate_overlay\<lparr>last_name_value := ''Smith'', password_value := ''powder''\<rparr>,
       Map.empty,
       \<lparr>rsvps = [] :: Rsvp list,
        invitees = [\<lparr>inv_id = None, inv_created_at = None, last_name = ''smith'',
                     has_plus_one = False, plus_one_name = None\<rparr>],
        requests = [], faults = []\<rparr>))))"
proof -
  let ?pg = "showPasswordGate_overlay\<lparr>last_name_value := ''Smith'', password_value := ''powder''\<rparr>"
  let ?r = "\<lparr>rsvps = [] :: Rsvp list,
        invitees = [\<lparr>inv_id = None, inv_created_at = None, last_name = ''smith'',
                     has_plus_one = False, plus_one_name = None\<rparr>],
        requests = [], faults = []\<rparr>"
  have h1: "fst (attemptLogin (Some ''powder'') ''powder'' Map.empty)"
    by (simp add: attemptLogin_def)
  have h2: "\<not> gate_exit ?pg"
    by (simp add: showPasswordGate_overlay_def)
  have h3: "gate_exit (fst (showPasswordGate_submit (Some ''powder'') (?pg, Map.empty, ?r)))"
    by (simp add: eval_gate)
  note a = C7_authenticated_after_login_not_after_logout
      [where st = "[STORAGE_KEY \<mapsto> ''true'', LAST_NAME_KEY \<mapsto> ''smith'']"]
  note b = C7_authenticated_after_login_not_after_logout
      [where st = "Map.empty" and CORRECT_PASSWORD = "Some ''powder''" and password = "''powder''"
         and pg = ?pg and r = ?r]
  have l1: "\<not> isAuthenticated (logout [STORAGE_KEY \<mapsto> ''true''])"
    using C7_authenticated_after_login_not_after_logout [where st = "[STORAGE_KEY \<mapsto> ''true'']"]
    by blast
  from a have l2: "\<not> isAuthenticated_named
        (logout_named [STORAGE_KEY \<mapsto> ''true'', LAST_NAME_KEY \<mapsto> ''smith''])"
    by blast
  from b h1 h2 h3 l1 l2 show ?thesis by blast
qed

text \<open>
  C9: the raw input is the pattern, so \<open>%\<close> matches every row. On a non-empty RSVP
  table \<open>checkDuplicate\<close> of \<open>%\<close> is true, and on a non-empty guest list the gate accepts
  the last name \<open>%\<close> and stores the last name of the first invitee.
\<close>

theorem C9_percent_matches_every_row:
  fixes q :: "'r remote"
  shows
  "(rsvps r \<noteq> [] \<and> next_fault r = None \<longrightarrow> fst (checkDuplicate ''%'' r) = Inr True) \<and>
   (invitees q \<noteq> [] \<and> next_fault q = None \<and>
    Some (trim (password_value pg)) = CORRECT_PASSWORD \<and> trim (last_name_value pg) = ''%'' \<longrightarrow>
      gate_exit (fst (showPasswordGate_submit CORRECT_PASSWORD (pg, st, q))) \<and>
      fst (snd (showPasswordGate_submit CORRECT_PASSWORD (pg, st, q))) =
        setItem (setItem st STORAGE_KEY ''true'') LAST_NAME_KEY (last_name (hd (invitees q))))"
proof -
  have 1: "fst (checkDuplicate ''%'' r) = Inr True"
    if "rsvps r \<noteq> []" "next_fault r = None"
    using that by (cases "rsvps r") (simp_all add: checkDuplicate_def issue_def ilike_percent)
  have 2: "gate_exit (fst (showPasswordGate_submit CORRECT_PASSWORD (pg, st, q))) \<and>
      fst (snd (showPasswordGate_submit CORRECT_PASSWORD (pg, st, q))) =
        setItem (setItem st STORAGE_KEY ''true'') LAST_NAME_KEY (last_name (hd (invitees q)))"
    if "invitees q \<noteq> []" "next_fault q = None"
       "Some (trim (password_value pg)) = CORRECT_PASSWORD" "trim (last_name_value pg) = ''%''"
    using that(1,4)
    by (cases "invitees q") (simp_all add: gate_lookup[OF that(3,2)] ilike_percent Let_def)
  from 1 2 show ?thesis by blast
qed

theorem C9_percent_matches_every_row_witness:
  "fst (checkDuplicate ''%''
          \<lparr>rsvps = [\<lparr>rsvp_id = None, rsvp_created_at = None, guest_name = ''Alex Rivera'',
                     attending = True, rsvp_last_name = ''rivera'', plus_one_attending = None,
                     dietary_restrictions = None, message = None\<rparr>],
           invitees = [], requests = [], faults = []\<rparr>) = Inr True \<and>
   gate_exit (fst (showPasswordGate_submit (Some ''powder'')
      (showPasswordGate_overlay\<lparr>last_name_value := ''%'', password_value := ''powder''\<rparr>,
       Map.empty,
       \<lparr>rsvps = [] :: Rsvp list,
        invitees = [\<lparr>inv_id = None, inv_created_at = None, last_name = ''smith'',
                     has_plus_one = False, plus_one_name = None\<rparr>],
        requests = [], faults = []\<rparr>))) \<and>
   fst (snd (showPasswordGate_submit (Some ''powder'')
      (showPasswordGate_overlay\<lparr>last_name_value := ''%'', password_value := ''powder''\<rparr>,
       Map.empty,
       \<lparr>rsvps = [] :: Rsvp list,
        invitees = [\<lparr>inv_id = None, inv_created_at = None, last_name = ''smith'',
                     has_plus_one = False, plus_one_name = None\<rparr>],
        requests = [], faults = []\<rparr>))) =
     [STORAGE_KEY \<mapsto> ''true'', LAST_NAME_KEY \<mapsto> ''smith'']"
proof -
  let ?r = "\<lparr>rsvps = [\<lparr>rsvp_id = None, rsvp_created_at = None, guest_name = ''Alex Rivera'',
                     attending = True, rsvp_last_name = ''rivera'', plus_one_attending = None,
                     dietary_restrictions = None, message = None\<rparr>],
           invitees = [], requests = [], faults = []\<rparr>"
  let ?pg = "showPasswordGate_overlay\<lparr>last_name_value := ''%'', password_value := ''powder''\<rparr>"
  let ?q = "\<lparr>rsvps = [] :: Rsvp list,
        invitees = [\<lparr>inv_id = None, inv_created_at = None, last_name = ''smith'',
                     has_plus_one = False, plus_one_name = None\<rparr>],
        requests = [], faults = []\<rparr>"
  have h1: "rsvps ?r \<noteq> [] \<and> next_fault ?r = None"
    by (simp add: next_fault_def)
  have h2: "invitees ?q \<noteq> [] \<and> next_fault ?q = None \<and>
    Some (trim (password_value ?pg)) = Some ''powder'' \<and> trim (last_name_value ?pg) = ''%''"
    by (simp add: next_fault_def showPasswordGate_overlay_def trim_def isWhiteSpace_def)
  from h1 h2
    C9_percent_matches_every_row[where r = ?r and q = ?q and pg = ?pg
      and CORRECT_PASSWORD = "Some ''powder''" and st = Map.empty]
  show ?thesis
    by (simp add: setItem_def)
qed

text \<open>
  Where the last name holds no pattern character, the lookup is the case-insensitive
  comparison: a row with that last name in any casing unlocks the gate.
\<close>

lemma gate_accepts_plain_name:
  fixes r :: "'r remote"
  assumes "Some (trim (password_value pg)) = CORRECT_PASSWORD"
      and "next_fault r = None"
      and "\<forall>c\<in>set (trim (last_name_value pg)). \<not> metachar c"
      and "row \<in> set (invitees r)"
      and "toLowerCase (last_name row) = toLowerCase (trim (last_name_value pg))"
  shows "gate_exit (fst (showPasswordGate_submit CORRECT_PASSWORD (pg, st, r)))"
proof -
  from assms(4,5)
  have "filter (\<lambda>i. toLowerCase (last_name i) = toLowerCase (trim (last_name_value pg)))
          (invitees r) \<noteq> []"
    by (auto simp: filter_empty_conv)
  then obtain x xs where
    "filter (\<lambda>i. toLowerCase (last_name i) = toLowerCase (trim (last_name_value pg)))
          (invitees r) = x # xs"
    by (cases "filter (\<lambda>i. toLowerCase (last_name i) = toLowerCase (trim (last_name_value pg)))
          (invitees r)") auto
  then show ?thesis
    by (simp add: gate_lookup[OF assms(1,2)] ilike_limit1_plain[OF assms(3)] Let_def)
qed

text \<open>
  C4 at a last name with a backslash: the guest list holds a row whose last name is the
  three characters \<open>a\<close>, backslash, \<open>b\<close>; the visitor types the correct password and that
  same last name, and the gate stays shut with the message for a name that is not on the
  list. As a pattern, the name stands for the two characters \<open>ab\<close>.
\<close>

theorem C4_backslash_name_rejected:
  "\<not> gate_exit (fst (showPasswordGate_submit (Some ''powder'')
         (showPasswordGate_overlay\<lparr>last_name_value := [CHR ''a'', CHR 0x5C, CHR ''b''],
                                    password_value := ''powder''\<rparr>,
          Map.empty,
          \<lparr>rsvps = [] :: Rsvp list,
           invitees = [\<lparr>inv_id = None, inv_created_at = None,
                        last_name = [CHR ''a'', CHR 0x5C, CHR ''b''],
                        has_plus_one = False, plus_one_name = None\<rparr>],
           requests = [], faults = []\<rparr>))) \<and>
   gate_error (fst (showPasswordGate_submit (Some ''powder'')
         (showPasswordGate_overlay\<lparr>last_name_value := [CHR ''a'', CHR 0x5C, CHR ''b''],
                                    password_value := ''powder''\<rparr>,
          Map.empty,
          \<lparr>rsvps = [] :: Rsvp list,
           invitees = [\<lparr>inv_id = None, inv_created_at = None,
                        last_name = [CHR ''a'', CHR 0x5C, CHR ''b''],
                        has_plus_one = False, plus_one_name = None\<rparr>],
           requests = [], faults = []\<rparr>))) =
     ''Last name not found on guest list. Please check your invitation or contact us.'' \<and>
   fst (snd (showPasswordGate_submit (Some ''powder'')
         (showPasswordGate_overlay\<lparr>last_name_value := [CHR ''a'', CHR 0x5C, CHR ''b''],
                                    password_value := ''powder''\<rparr>,
          Map.empty,
          \<lparr>rsvps = [] :: Rsvp list,
           invitees = [\<lparr>inv_id = None, inv_created_at = None,
                        last_name = [CHR ''a'', CHR 0x5C, CHR ''b''],
                        has_plus_one = False, plus_one_name = None\<rparr>],
           requests = [], faults = []\<rparr>))) = Map.empty"
  by (simp add: eval_gate)

section \<open>Properties of the RSVP form\<close>

lemmas eval_form = field_trim_def trim_def isWhiteSpace_def next_fault_def issue_def
  ilike_def toLowerCase_def toLowerChar_def star_def eq_limit1_def
  checkDuplicate_def checkDuplicate_email_def

text \<open>
  C2 at a guest name with a backslash, in the name variant: after a row whose guest name
  is the three characters \<open>a\<close>, backslash, \<open>b\<close> is inserted into an empty table,
  \<open>checkDuplicate\<close> of that same name answers false.
\<close>

theorem C2_backslash_name_not_found_after_submit:
  "fst (checkDuplicate [CHR ''a'', CHR 0x5C, CHR ''b'']
         (snd (submitRsvp
                 \<lparr>rsvp_id = None, rsvp_created_at = None,
                  guest_name = [CHR ''a'', CHR 0x5C, CHR ''b''], attending = True,
                  rsvp_last_name = ''smith'', plus_one_attending = None,
                  dietary_restrictions = None, message = None\<rparr>
                 \<lparr>rsvps = [], invitees = [], requests = [], faults = []\<rparr>))) = Inr False"
  by (simp add: checkDuplicate_def submitRsvp_def issue_def next_fault_def ilike_def
      toLowerCase_def toLowerChar_def star_def)

text \<open>
  Submit followed by the duplicate check does answer true in the email variant, whose
  check is an equality, and in the name variant for a name without pattern character.
\<close>

lemma submit_then_checkDuplicate_email:
  assumes "faults r = []"
  shows "fst (checkDuplicate_email (email row) (snd (submitRsvp row r))) = Inr True"
  using assms
  by (simp add: checkDuplicate_email_def submitRsvp_def issue_def next_fault_def eq_limit1_def)

lemma checkDuplicate_plain:
  assumes "\<forall>c\<in>set name. \<not> metachar c" and "next_fault r = None"
  shows "fst (checkDuplicate name r) =
           Inr (\<exists>x\<in>set (rsvps r). toLowerCase (guest_name x) = toLowerCase name)"
proof -
  have "(filter (\<lambda>x. toLowerCase (guest_name x) = toLowerCase name) (rsvps r) \<noteq> []) =
        (\<exists>x\<in>set (rsvps r). toLowerCase (guest_name x) = toLowerCase name)"
    by (simp add: filter_empty_conv)
  then show ?thesis using assms(2)
    by (simp add: checkDuplicate_def issue_def ilike_limit1_plain[OF assms(1)])
qed

lemma submit_then_checkDuplicate_plain:
  assumes "\<forall>c\<in>set (guest_name row). \<not> metachar c" and "faults r = []"
  shows "fst (checkDuplicate (guest_name row) (snd (submitRsvp row r))) = Inr True"
proof -
  have nf: "next_fault (snd (submitRsvp row r)) = None"
    using assms(2) by (simp add: submitRsvp_def issue_def next_fault_def)
  show ?thesis unfolding checkDuplicate_plain[OF assms(1) nf]
    using assms(2) by (simp add: submitRsvp_def issue_def next_fault_def)
qed

text \<open>The duplicate check changes the store only by its own request.\<close>

lemma checkDuplicate_remote:
  "snd (checkDuplicate name r) =
     r\<lparr>requests := requests r @ [Select_rsvps_ilike_guest_name name],
       faults := drop 1 (faults r)\<rparr>"
  by (simp add: checkDuplicate_def issue_def split: option.splits sum.splits)

lemma checkDuplicate_email_remote:
  "snd (checkDuplicate_email em r) =
     r\<lparr>requests := requests r @ [Select_rsvps_eq_email em], faults := drop 1 (faults r)\<rparr>"
  by (simp add: checkDuplicate_email_def issue_def split: option.splits)

lemma submit_duplicate:
  assumes "field_trim (guest_name_value (form pg)) \<noteq> []"
      and "fst (checkDuplicate (field_trim (guest_name_value (form pg))) r) = Inr True"
  shows "initRsvpForm_submit authLastName (pg, r) =
     (pg\<lparr>btn_disabled := False, btn_text := ''Send RSVP'',
         rsvp_message := Some (Warning,
           ''Looks like you're already on the list, '' @ field_trim (guest_name_value (form pg)) @
           ''! If you need to make changes, reach out to us directly.'')\<rparr>,
      r\<lparr>requests := requests r @
            [Select_rsvps_ilike_guest_name (field_trim (guest_name_value (form pg)))],
        faults := drop 1 (faults r)\<rparr>)"
proof -
  obtain x r1 where c: "checkDuplicate (field_trim (guest_name_value (form pg))) r = (x, r1)"
    by (cases "checkDuplicate (field_trim (guest_name_value (form pg))) r")
  from c assms(2) have x: "x = Inr True" by simp
  from c checkDuplicate_remote[of "field_trim (guest_name_value (form pg))" r]
  have r1: "r1 = r\<lparr>requests := requests r @
            [Select_rsvps_ilike_guest_name (field_trim (guest_name_value (form pg)))],
        faults := drop 1 (faults r)\<rparr>" by simp
  show ?thesis
    using assms(1) c x r1
    by (simp add: initRsvpForm_submit_def Let_def enable_btn_def showFormMessage_def)
qed

lemma submit_duplicate_email:
  assumes "field_trim (e_guest_name_value (form pg)) \<noteq> []"
      and "field_trim (guest_email_value (form pg)) \<noteq> []"
      and "fst (checkDuplicate_email (field_trim (guest_email_value (form pg))) r) = Inr True"
  shows "initRsvpForm_submit_email (pg, r) =
     (pg\<lparr>btn_disabled := False, btn_text := ''Send RSVP'',
         rsvp_message := Some (Success,
           ''You're already on the list, '' @ field_trim (e_guest_name_value (form pg)) @
           ''! If you need to make changes, reach out to us directly.'')\<rparr>,
      r\<lparr>requests := requests r @
            [Select_rsvps_eq_email (field_trim (guest_email_value (form pg)))],
        faults := drop 1 (faults r)\<rparr>)"
proof -
  obtain x r1 where c: "checkDuplicate_email (field_trim (guest_email_value (form pg))) r = (x, r1)"
    by (cases "checkDuplicate_email (field_trim (guest_email_value (form pg))) r")
  from c assms(3) have x: "x = Inr True" by simp
  from c checkDuplicate_email_remote[of "field_trim (guest_email_value (form pg))" r]
  have r1: "r1 = r\<lparr>requests := requests r @
            [Select_rsvps_eq_email (field_trim (guest_email_value (form pg)))],
        faults := drop 1 (faults r)\<rparr>" by simp
  show ?thesis
    using assms(1,2) c x r1
    by (simp add: initRsvpForm_submit_email_def Let_def enable_btn_def showFormMessage_def)
qed

text \<open>
  C5: when the duplicate check finds a row, the listener shows the message that the guest
  is already on the list, enables the submit button again, leaves the form as filled in,
  and the only request it has issued is the lookup: the RSVP table is unchanged and no
  insert is sent. Both variants.
\<close>

theorem C5_duplicate_is_reported_not_inserted:
  "(field_trim (guest_name_value (form pg)) \<noteq> [] \<and>
    fst (checkDuplicate (field_trim (guest_name_value (form pg))) r) = Inr True \<longrightarrow>
      rsvp_message (fst (initRsvpForm_submit authLastName (pg, r))) =
        Some (Warning,
          ''Looks like you're already on the list, '' @ field_trim (guest_name_value (form pg)) @
          ''! If you need to make changes, reach out to us directly.'') \<and>
      \<not> btn_disabled (fst (initRsvpForm_submit authLastName (pg, r))) \<and>
      btn_text (fst (initRsvpForm_submit authLastName (pg, r))) = ''Send RSVP'' \<and>
      form (fst (initRsvpForm_submit authLastName (pg, r))) = form pg \<and>
      rsvps (snd (initRsvpForm_submit authLastName (pg, r))) = rsvps r \<and>
      requests (snd (initRsvpForm_submit authLastName (pg, r))) =
        requests r @ [Select_rsvps_ilike_guest_name (field_trim (guest_name_value (form pg)))]) \<and>
   (field_trim (e_guest_name_value (form pe)) \<noteq> [] \<and>
    field_trim (guest_email_value (form pe)) \<noteq> [] \<and>
    fst (checkDuplicate_email (field_trim (guest_email_value (form pe))) re) = Inr True \<longrightarrow>
      rsvp_message (fst (initRsvpForm_submit_email (pe, re))) =
        Some (Success,
          ''You're already on the list, '' @ field_trim (e_guest_name_value (form pe)) @
          ''! If you need to make changes, reach out to us directly.'') \<and>
      \<not> btn_disabled (fst (initRsvpForm_submit_email (pe, re))) \<and>
      btn_text (fst (initRsvpForm_submit_email (pe, re))) = ''Send RSVP'' \<and>
      form (fst (initRsvpForm_submit_email (pe, re))) = form pe \<and>
      rsvps (snd (initRsvpForm_submit_email (pe, re))) = rsvps re \<and>
      requests (snd (initRsvpForm_submit_email (pe, re))) =
        requests re @ [Select_rsvps_eq_email (field_trim (guest_email_value (form pe)))])"
proof (intro conjI impI)
qed (simp_all add: submit_duplicate submit_duplicate_email)

theorem C5_duplicate_is_reported_not_inserted_witness:
  "rsvp_message (fst (initRsvpForm_submit (Some ''rivera'')
      (\<lparr>form = \<lparr>attending_checked = Some ''true'', guest_name_value = Some '' alex rivera '',
                 dietary_restrictions_value = Some [], rsvp_message_input_value = Some [],
                 plus_one_attending_checked = None\<rparr>,
        form_defaults = \<lparr>attending_checked = None, guest_name_value = Some [],
                 dietary_restrictions_value = Some [], rsvp_message_input_value = Some [],
                 plus_one_attending_checked = None\<rparr>,
        btn_disabled = False, btn_text = ''Send RSVP'', rsvp_message = None,
        section_display = ''none'', console = []\<rparr>,
       \<lparr>rsvps = [\<lparr>rsvp_id = None, rsvp_created_at = None, guest_name = ''Alex Rivera'',
                  attending = True, rsvp_last_name = ''rivera'', plus_one_attending = None,
                  dietary_restrictions = None, message = None\<rparr>],
        invitees = [], requests = [], faults = []\<rparr>))) =
     Some (Warning, ''Looks like you're already on the list, alex rivera! If you need to make changes, reach out to us directly.'') \<and>
   rsvps (snd (initRsvpForm_submit (Some ''rivera'')
      (\<lparr>form = \<lparr>attending_checked = Some ''true'', guest_name_value = Some '' alex rivera '',
                 dietary_restrictions_value = Some [], rsvp_message_input_value = Some [],
                 plus_one_attending_checked = None\<rparr>,
        form_defaults = \<lparr>attending_checked = None, guest_name_value = Some [],
                 dietary_restrictions_value = Some [], rsvp_message_input_value = Some [],
                 plus_one_attending_checked = None\<rparr>,
        btn_disabled = False, btn_text = ''Send RSVP'', rsvp_message = None,
        section_display = ''none'', console = []\<rparr>,
       \<lparr>rsvps = [\<lparr>rsvp_id = None, rsvp_created_at = None, guest_name = ''Alex Rivera'',
                  attending = True, rsvp_last_name = ''rivera'', plus_one_attending = None,
                  dietary_restrictions = None, message = None\<rparr>],
        invitees = [], requests = [], faults = []\<rparr>))) =
     [\<lparr>rsvp_id = None, rsvp_created_at = None, guest_name = ''Alex Rivera'',
       attending = True, rsvp_last_name = ''rivera'', plus_one_attending = None,
       dietary_restrictions = None, message = None\<rparr>] \<and>
   requests (snd (initRsvpForm_submit_email
      (\<lparr>form = \<lparr>e_attending_checked = Some ''true'', e_guest_name_value = Some ''Alex Rivera'',
                 guest_email_value = Some ''alex@example.com'', guest_phone_value = Some [],
                 number_of_guests_value = Some ''2'', e_dietary_restrictions_value = Some [],
                 e_rsvp_message_input_value = Some []\<rparr>,
        form_defaults = \<lparr>e_attending_checked = None, e_guest_name_value = Some [],
                 guest_email_value = Some [], guest_phone_value = Some [],
                 number_of_guests_value = Some ''1'', e_dietary_restrictions_value = Some [],
                 e_rsvp_message_input_value = Some []\<rparr>,
        btn_disabled = False, btn_text = ''Send RSVP'', rsvp_message = None,
        section_display = ''block'', console = []\<rparr>,
       \<lparr>rsvps = [\<lparr>e_id = None, e_created_at = None, e_guest_name = ''A. Rivera'',
                  email = ''alex@example.com'', phone = None, e_attending = True,
                  number_of_guests = Num 1, e_dietary_restrictions = None, e_message = None\<rparr>],
        invitees = [], requests = [], faults = []\<rparr>))) =
     [Select_rsvps_eq_email ''alex@example.com'']"
proof -
  let ?pg = "\<lparr>form = \<lparr>attending_checked = Some ''true'', guest_name_value = Some '' alex rivera '',
                 dietary_restrictions_value = Some [], rsvp_message_input_value = Some [],
                 plus_one_attending_checked = None\<rparr>,
        form_defaults = \<lparr>attending_checked = None, guest_name_value = Some [],
                 dietary_restrictions_value = Some [], rsvp_message_input_value = Some [],
                 plus_one_attending_checked = None\<rparr>,
        btn_disabled = False, btn_text = ''Send RSVP'', rsvp_message = None,
        section_display = ''none'', console = []\<rparr>"
  let ?r = "\<lparr>rsvps = [\<lparr>rsvp_id = None, rsvp_created_at = None, guest_name = ''Alex Rivera'',
                  attending = True, rsvp_last_name = ''rivera'', plus_one_attending = None,
                  dietary_restrictions = None, message = None\<rparr>],
        invitees = [], requests = [], faults = []\<rparr>"
  let ?pe = "\<lparr>form = \<lparr>e_attending_checked = Some ''true'', e_guest_name_value = Some ''Alex Rivera'',
                 guest_email_value = Some ''alex@example.com'', guest_phone_value = Some [],
                 number_of_guests_value = Some ''2'', e_dietary_restrictions_value = Some [],
                 e_rsvp_message_input_value = Some []\<rparr>,
        form_defaults = \<lparr>e_attending_checked = None, e_guest_name_value = Some [],
                 guest_email_value = Some [], guest_phone_value = Some [],
                 number_of_guests_value = Some ''1'', e_dietary_restrictions_value = Some [],
                 e_rsvp_message_input_value = Some []\<rparr>,
        btn_disabled = False, btn_text = ''Send RSVP'', rsvp_message = None,
        section_display = ''block'', console = []\<rparr>"
  let ?re = "\<lparr>rsvps = [\<lparr>e_id = None, e_created_at = None, e_guest_name = ''A. Rivera'',
                  email = ''alex@example.com'', phone = None, e_attending = True,
                  number_of_guests = Num 1, e_dietary_restrictions = None, e_message = None\<rparr>],
        invitees = [], requests = [], faults = []\<rparr>"
  have n: "field_trim (guest_name_value (form ?pg)) = ''alex rivera''"
    by (simp add: field_trim_def trim_def isWhiteSpace_def)
  have h1: "field_trim (guest_name_value (form ?pg)) \<noteq> [] \<and>
    fst (checkDuplicate (field_trim (guest_name_value (form ?pg))) ?r) = Inr True"
    unfolding n by (simp add: eval_form)
  have e: "field_trim (guest_email_value (form ?pe)) = ''alex@example.com''"
    by (simp add: field_trim_def trim_def isWhiteSpace_def)
  have h2: "field_trim (e_guest_name_value (form ?pe)) \<noteq> [] \<and>
    field_trim (guest_email_value (form ?pe)) \<noteq> [] \<and>
    fst (checkDuplicate_email (field_trim (guest_email_value (form ?pe))) ?re) = Inr True"
    unfolding e by (simp add: eval_form)
  from h1 h2 n e
    C5_duplicate_is_reported_not_inserted
      [where pg = ?pg and r = ?r and pe = ?pe and re = ?re and authLastName = "Some ''rivera''"]
  show ?thesis
    by simp
qed

text \<open>
  C6: with an empty trimmed guest name (in the email variant: an empty trimmed guest name
  or email) the listener shows the validation message, enables the button again and
  leaves the store untouched: no request is issued.
\<close>

theorem C6_empty_required_field_stays_local:
  "(field_trim (guest_name_value (form pg)) = [] \<longrightarrow>
      initRsvpForm_submit authLastName (pg, r) =
        (pg\<lparr>btn_disabled := False, btn_text := ''Send RSVP'',
            rsvp_message := Some (Error, ''Please fill in your name.'')\<rparr>, r)) \<and>
   (field_trim (e_guest_name_value (form pe)) = [] \<or>
    field_trim (guest_email_value (form pe)) = [] \<longrightarrow>
      initRsvpForm_submit_email (pe, re) =
        (pe\<lparr>btn_disabled := False, btn_text := ''Send RSVP'',
            rsvp_message := Some (Error, ''Please fill in your name and email.'')\<rparr>, re))"
  by (auto simp: initRsvpForm_submit_def initRsvpForm_submit_email_def Let_def enable_btn_def
      showFormMessage_def)

theorem C6_empty_required_field_stays_local_witness:
  "rsvp_message (fst (initRsvpForm_submit (Some ''rivera'')
      (\<lparr>form = \<lparr>attending_checked = Some ''true'', guest_name_value = Some ''   '',
                 dietary_restrictions_value = Some ''none'', rsvp_message_input_value = Some [],
                 plus_one_attending_checked = None\<rparr>,
        form_defaults = \<lparr>attending_checked = None, guest_name_value = Some [],
                 dietary_restrictions_value = Some [], rsvp_message_input_value = Some [],
                 plus_one_attending_checked = None\<rparr>,
        btn_disabled = False, btn_text = ''Send RSVP'', rsvp_message = None,
        section_display = ''none'', console = []\<rparr>,
       \<lparr>rsvps = [], invitees = [], requests = [], faults = []\<rparr>))) =
     Some (Error, ''Please fill in your name.'') \<and>
   requests (snd (initRsvpForm_submit (Some ''rivera'')
      (\<lparr>form = \<lparr>attending_checked = Some ''true'', guest_name_value = Some ''   '',
                 dietary_restrictions_value = Some ''none'', rsvp_message_input_value = Some [],
                 plus_one_attending_checked = None\<rparr>,
        form_defaults = \<lparr>attending_checked = None, guest_name_value = Some [],
                 dietary_restrictions_value = Some [], rsvp_message_input_value = Some [],
                 plus_one_attending_checked = None\<rparr>,
        btn_disabled = False, btn_text = ''Send RSVP'', rsvp_message = None,
        section_display = ''none'', console = []\<rparr>,
       \<lparr>rsvps = [], invitees = [], requests = [], faults = []\<rparr>))) = [] \<and>
   rsvp_message (fst (initRsvpForm_submit_email
      (\<lparr>form = \<lparr>e_attending_checked = Some ''true'', e_guest_name_value = Some ''Alex Rivera'',
                 guest_email_value = Some '' '', guest_phone_value = Some [],
                 number_of_guests_value = Some ''2'', e_dietary_restrictions_value = Some [],
                 e_rsvp_message_input_value = Some []\<rparr>,
        form_defaults = \<lparr>e_attending_checked = None, e_guest_name_value = Some [],
                 guest_email_value = Some [], guest_phone_value = Some [],
                 number_of_guests_value = Some ''1'', e_dietary_restrictions_value = Some [],
                 e_rsvp_message_input_value = Some []\<rparr>,
        btn_disabled = False, btn_text = ''Send RSVP'', rsvp_message = None,
        section_display = ''block'', console = []\<rparr>,
       \<lparr>rsvps = [], invitees = [], requests = [], faults = []\<rparr>))) =
     Some (Error, ''Please fill in your name and email.'') \<and>
   requests (snd (initRsvpForm_submit_email
      (\<lparr>form = \<lparr>e_attending_checked = Some ''true'', e_guest_name_value = Some ''Alex Rivera'',
                 guest_email_value = Some '' '', guest_phone_value = Some [],
                 number_of_guests_value = Some ''2'', e_dietary_restrictions_value = Some [],
                 e_rsvp_message_input_value = Some []\<rparr>,
        form_defaults = \<lparr>e_attending_checked = None, e_guest_name_value = Some [],
                 guest_email_value = Some [], guest_phone_value = Some [],
                 number_of_guests_value = Some ''1'', e_dietary_restrictions_value = Some [],
                 e_rsvp_message_input_value = Some []\<rparr>,
        btn_disabled = False, btn_text = ''Send RSVP'', rsvp_message = None,
        section_display = ''block'', console = []\<rparr>,
       \<lparr>rsvps = [], invitees = [], requests = [], faults = []\<rparr>))) = []"
proof -
  let ?pg = "\<lparr>form = \<lparr>attending_checked = Some ''true'', guest_name_value = Some ''   '',
                 dietary_restrictions_value = Some ''none'', rsvp_message_input_value = Some [],
                 plus_one_attending_checked = None\<rparr>,
        form_defaults = \<lparr>attending_checked = None, guest_name_value = Some [],
                 dietary_restrictions_value = Some [], rsvp_message_input_value = Some [],
                 plus_one_attending_checked = None\<rparr>,
        btn_disabled = False, btn_text = ''Send RSVP'', rsvp_message = None,
        section_display = ''none'', console = []\<rparr>"
  let ?pe = "\<lparr>form = \<lparr>e_attending_checked = Some ''true'', e_guest_name_value = Some ''Alex Rivera'',
                 guest_email_value = Some '' '', guest_phone_value = Some [],
                 number_of_guests_value = Some ''2'', e_dietary_restrictions_value = Some [],
                 e_rsvp_message_input_value = Some []\<rparr>,
        form_defaults = \<lparr>e_attending_checked = None, e_guest_name_value = Some [],
                 guest_email_value = Some [], guest_phone_value = Some [],
                 number_of_guests_value = Some ''1'', e_dietary_restrictions_value = Some [],
                 e_rsvp_message_input_value = Some []\<rparr>,
        btn_disabled = False, btn_text = ''Send RSVP'', rsvp_message = None,
        section_display = ''block'', console = []\<rparr>"
  have h1: "field_trim (guest_name_value (form ?pg)) = []"
    by (simp add: field_trim_def trim_def isWhiteSpace_def)
  have h2: "field_trim (e_guest_name_value (form ?pe)) = [] \<or>
    field_trim (guest_email_value (form ?pe)) = []"
    by (simp add: field_trim_def trim_def isWhiteSpace_def)
  from h1 h2
    C6_empty_required_field_stays_local
      [where pg = ?pg and pe = ?pe and authLastName = "Some ''rivera''"
         and r = "\<lparr>rsvps = [], invitees = [], requests = [], faults = []\<rparr>"
         and re = "\<lparr>rsvps = [], invitees = [], requests = [], faults = []\<rparr>"]
  show ?thesis
    by simp
qed

lemma parseInt_Nil: "parseInt [] = NaN"
  by (simp add: parseInt_def)

text \<open>
  C10: in the email variant the guest count is not validated. For a submission that
  passes validation and the duplicate check, with \<open>attending\<close> true and a guest-count
  field that is empty or on which \<open>parseInt\<close> yields \<open>NaN\<close>, the listener sends the insert,
  and the row it sends has \<open>number_of_guests = NaN\<close>.
\<close>

theorem C10_nan_guest_count_is_submitted:
  assumes name: "field_trim (e_guest_name_value (form pg)) \<noteq> []"
      and mail: "field_trim (guest_email_value (form pg)) \<noteq> []"
      and att: "e_attending_checked (form pg) = Some ''true''"
      and guests: "number_of_guests_value (form pg) = Some v"
      and nan: "v = [] \<or> parseInt v = NaN"
      and fresh: "fst (checkDuplicate_email (field_trim (guest_email_value (form pg))) r) = Inr False"
  shows "requests (snd (initRsvpForm_submit_email (pg, r))) =
           requests r @
           [Select_rsvps_eq_email (field_trim (guest_email_value (form pg))),
            Insert_rsvps
              \<lparr>e_id = None, e_created_at = None,
               e_guest_name = field_trim (e_guest_name_value (form pg)),
               email = field_trim (guest_email_value (form pg)),
               phone = or_undefined (field_trim (guest_phone_value (form pg))),
               e_attending = True,
               number_of_guests = NaN,
               e_dietary_restrictions =
                 or_undefined (field_trim (e_dietary_restrictions_value (form pg))),
               e_message = or_undefined (field_trim (e_rsvp_message_input_value (form pg)))\<rparr>]"
proof -
  from nan have p: "parseInt v = NaN"
    by (auto simp: parseInt_Nil)
  obtain x r1 where c: "checkDuplicate_email (field_trim (guest_email_value (form pg))) r = (x, r1)"
    by (cases "checkDuplicate_email (field_trim (guest_email_value (form pg))) r")
  from c fresh have x: "x = Inr False" by simp
  from c checkDuplicate_email_remote[of "field_trim (guest_email_value (form pg))" r]
  have r1: "r1 = r\<lparr>requests := requests r @
            [Select_rsvps_eq_email (field_trim (guest_email_value (form pg)))],
        faults := drop 1 (faults r)\<rparr>" by simp
  show ?thesis
    using name mail att guests p c x r1
    by (simp add: initRsvpForm_submit_email_def Let_def submitRsvp_def issue_def
        split: prod.splits option.splits sum.splits)
qed

theorem C10_nan_guest_count_is_submitted_witness:
  "requests (snd (initRsvpForm_submit_email
      (\<lparr>form = \<lparr>e_attending_checked = Some ''true'', e_guest_name_value = Some ''Alex Rivera'',
                 guest_email_value = Some ''alex@example.com'', guest_phone_value = Some [],
                 number_of_guests_value = Some [], e_dietary_restrictions_value = Some [],
                 e_rsvp_message_input_value = Some []\<rparr>,
        form_defaults = \<lparr>e_attending_checked = None, e_guest_name_value = Some [],
                 guest_email_value = Some [], guest_phone_value = Some [],
                 number_of_guests_value = Some ''1'', e_dietary_restrictions_value = Some [],
                 e_rsvp_message_input_value = Some []\<rparr>,
        btn_disabled = False, btn_text = ''Send RSVP'', rsvp_message = None,
        section_display = ''block'', console = []\<rparr>,
       \<lparr>rsvps = [], invitees = [], requests = [], faults = []\<rparr>))) =
     [Select_rsvps_eq_email ''alex@example.com'',
      Insert_rsvps
        \<lparr>e_id = None, e_created_at = None, e_guest_name = ''Alex Rivera'',
         email = ''alex@example.com'', phone = None, e_attending = True,
         number_of_guests = NaN, e_dietary_restrictions = None, e_message = None\<rparr>]"
proof -
  let ?pg = "\<lparr>form = \<lparr>e_attending_checked = Some ''true'', e_guest_name_value = Some ''Alex Rivera'',
                 guest_email_value = Some ''alex@example.com'', guest_phone_value = Some [],
                 number_of_guests_value = Some [], e_dietary_restrictions_value = Some [],
                 e_rsvp_message_input_value = Some []\<rparr>,
        form_defaults = \<lparr>e_attending_checked = None, e_guest_name_value = Some [],
                 guest_email_value = Some [], guest_phone_value = Some [],
                 number_of_guests_value = Some ''1'', e_dietary_restrictions_value = Some [],
                 e_rsvp_message_input_value = Some []\<rparr>,
        btn_disabled = False, btn_text = ''Send RSVP'', rsvp_message = None,
        section_display = ''block'', console = []\<rparr>"
  let ?r = "\<lparr>rsvps = [] :: Rsvp_email list, invitees = [], requests = [], faults = []\<rparr>"
  have n: "field_trim (e_guest_name_value (form ?pg)) = ''Alex Rivera''"
    by (simp add: field_trim_def trim_def isWhiteSpace_def)
  have e: "field_trim (guest_email_value (form ?pg)) = ''alex@example.com''"
    by (simp add: field_trim_def trim_def isWhiteSpace_def)
  have h1: "field_trim (e_guest_name_value (form ?pg)) \<noteq> []"
    unfolding n by simp
  have h2: "field_trim (guest_email_value (form ?pg)) \<noteq> []"
    unfolding e by simp
  have h3: "e_attending_checked (form ?pg) = Some ''true''"
    by simp
  have h4: "number_of_guests_value (form ?pg) = Some []"
    by simp
  have h5: "[] = ([] :: string) \<or> parseInt [] = NaN"
    by simp
  have h6: "fst (checkDuplicate_email (field_trim (guest_email_value (form ?pg))) ?r) = Inr False"
    unfolding e by (simp add: eval_form)
  from C10_nan_guest_count_is_submitted[OF h1 h2 h3 h4 h5 h6] n e
  show ?thesis
    by (simp add: or_undefined_def field_trim_def trim_def)
qed

section \<open>Properties of the dashboard\<close>

lemma rsvpCounts_loop_lookup:
  "rsvpCounts_loop m rs k =
     (let n = length (filter (\<lambda>r. rsvp_last_name r \<noteq> [] \<and> toLowerCase (rsvp_last_name r) = k) rs)
      in if n = 0 then m k else Some ((case m k of None \<Rightarrow> 0 | Some c \<Rightarrow> c) + n))"
proof (induction rs arbitrary: m)
  case Nil
  then show ?case by simp
next
  case (Cons r rs)
  then show ?case by (auto simp: Let_def split: option.splits)
qed

text \<open>
  C8, as stated: the count shown for an invitee is the number of RSVP rows whose last
  name matches the invitee's case-insensitively. For an invitee and an RSVP row that
  both have the empty last name the rows match, and the count shown is 0.
\<close>

theorem C8_empty_last_names_are_not_counted:
  "map snd (renderDashboard_invitees
      [\<lparr>rsvp_id = None, rsvp_created_at = None, guest_name = ''Alex Rivera'', attending = True,
        rsvp_last_name = [], plus_one_attending = None, dietary_restrictions = None,
        message = None\<rparr>]
      [\<lparr>inv_id = None, inv_created_at = None, last_name = [], has_plus_one = False,
        plus_one_name = None\<rparr>])
   \<noteq> [length (matching_rsvps
        \<lparr>inv_id = None, inv_created_at = None, last_name = [], has_plus_one = False,
         plus_one_name = None\<rparr>
        [\<lparr>rsvp_id = None, rsvp_created_at = None, guest_name = ''Alex Rivera'', attending = True,
          rsvp_last_name = [], plus_one_attending = None, dietary_restrictions = None,
          message = None\<rparr>])]"
  by (simp add: renderDashboard_invitees_def renderInviteesTab_def rsvdCount_def
      matching_rsvps_def toLowerCase_def)

text \<open>
  C8, amended: the count shown for an invitee is the number of fetched RSVP rows with a
  non-empty last name whose last name equals the invitee's up to case (the loop skips
  rows with an empty last name).
\<close>

theorem C8_count_of_matching_rsvps_with_last_name:
  "renderDashboard_invitees rs invs =
     map (\<lambda>i. (i, length (filter (\<lambda>r. rsvp_last_name r \<noteq> []) (matching_rsvps i rs)))) invs"
proof -
  have "rsvdCount (rsvpCounts_loop Map.empty rs) i =
          length (filter (\<lambda>r. rsvp_last_name r \<noteq> []) (matching_rsvps i rs))" for i
    by (simp add: rsvdCount_def rsvpCounts_loop_lookup Let_def matching_rsvps_def conj_commute)
  then show ?thesis
    by (simp add: renderDashboard_invitees_def renderInviteesTab_def)
qed

end
